theory Spec2Isabelle
  imports Complex_Main
begin

section \<open>The Epsilla sink connector (neumai/SinkConnectors/EpsillaSink.py)\<close>

text \<open>
  A shallow embedding of \<^verbatim>\<open>EpsillaSink\<close>: its methods \<^verbatim>\<open>validation\<close>,
  \<^verbatim>\<open>_get_db\<close>, \<^verbatim>\<open>_extract_numbers\<close>, \<^verbatim>\<open>store\<close>, \<^verbatim>\<open>search\<close> and
  \<^verbatim>\<open>delete_vectors_with_file_id\<close>. The remote service is reached through the
  \<^verbatim>\<open>pyepsilla\<close> client, which is not part of the repository: it is a parameter of every
  operation, a record of state transformers over an arbitrary state of the remote side.
\<close>

subsection \<open>Python values\<close>

text \<open>
  The values exchanged with the client are JSON-like Python objects. A \<^verbatim>\<open>dict\<close> is an
  association list read with \<open>map_of\<close> (the first binding of a key counts). Floats are
  only copied by the connector, never computed with; they are carried as reals. Text is
  ASCII: a \<open>char\<close> is one character of a Python \<^verbatim>\<open>str\<close>.
\<close>

datatype json =
    JNull
  | JBool bool
  | JInt int
  | JFloat real
  | JStr string
  | JArr "json list"
  | JObj "(string \<times> json) list"

text \<open>
  What the connector itself can raise, next to an exception of the client library that it
  lets through (\<open>Raised\<close>, with the text of \<^verbatim>\<open>str(e)\<close>). The three exception classes of
  \<^verbatim>\<open>neumai.Shared.Exceptions\<close> carry their message. The message of an
  \<open>EpsillaQueryException\<close> is an f-string: its literal prefix, then \<^verbatim>\<open>str\<close> of the
  interpolated value, which is kept as the value.
\<close>

datatype error =
    EpsillaConnectionException string
  | EpsillaInsertionException string
  | EpsillaQueryException string json
  | KeyError string
  | IndexError
  | TypeError
  | Raised string

text \<open>Truth value testing (\<^verbatim>\<open>x if x else y\<close>): the empty and zero values are false.\<close>

fun py_truthy :: "json \<Rightarrow> bool" where
  "py_truthy JNull = False"
| "py_truthy (JBool b) = b"
| "py_truthy (JInt i) = (i \<noteq> 0)"
| "py_truthy (JFloat r) = (r \<noteq> 0)"
| "py_truthy (JStr s) = (s \<noteq> [])"
| "py_truthy (JArr xs) = (xs \<noteq> [])"
| "py_truthy (JObj kvs) = (kvs \<noteq> [])"

text \<open>
  \<^verbatim>\<open>d[key]\<close> for a \<^verbatim>\<open>dict\<close> held as an association list: a missing key raises
  \<^verbatim>\<open>KeyError(key)\<close>.
\<close>

definition dict_getitem :: "(string \<times> json) list \<Rightarrow> string \<Rightarrow> error + json" where
  "dict_getitem kvs k = (case map_of kvs k of None \<Rightarrow> Inl (KeyError k) | Some v \<Rightarrow> Inr v)"

text \<open>
  \<^verbatim>\<open>x[key]\<close> with a string key, for any value: only a \<^verbatim>\<open>dict\<close> can be subscripted
  with a string; a list or a string wants an integer index, the other values are not
  subscriptable (all \<^verbatim>\<open>TypeError\<close>).
\<close>

fun py_getitem :: "json \<Rightarrow> string \<Rightarrow> error + json" where
  "py_getitem (JObj kvs) k = dict_getitem kvs k"
| "py_getitem _ k = Inl TypeError"

text \<open>\<^verbatim>\<open>needle in haystack\<close> for two strings: a contiguous occurrence.\<close>

fun is_prefix :: "string \<Rightarrow> string \<Rightarrow> bool" where
  "is_prefix [] ys = True"
| "is_prefix (x # xs) [] = False"
| "is_prefix (x # xs) (y # ys) = (x = y \<and> is_prefix xs ys)"

fun is_substring :: "string \<Rightarrow> string \<Rightarrow> bool" where
  "is_substring xs [] = (xs = [])"
| "is_substring xs (y # ys) = (is_prefix xs (y # ys) \<or> is_substring xs ys)"

text \<open>
  \<^verbatim>\<open>name not in container\<close> for a string \<open>name\<close>: a list is searched for an equal element
  (a string equals only a string), a \<^verbatim>\<open>dict\<close> for the key, a string for the
  substring; the other values are not containers.
\<close>

fun py_not_in :: "string \<Rightarrow> json \<Rightarrow> error + bool" where
  "py_not_in name (JArr xs) = Inr (JStr name \<notin> set xs)"
| "py_not_in name (JObj kvs) = Inr (name \<notin> set (map fst kvs))"
| "py_not_in name (JStr s) = Inr (\<not> is_substring name s)"
| "py_not_in name _ = Inl TypeError"

text \<open>
  \<^verbatim>\<open>for x in value\<close>: the elements of a list, the keys of a \<^verbatim>\<open>dict\<close>, the characters
  of a string; the other values are not iterable.
\<close>

fun py_iter :: "json \<Rightarrow> error + json list" where
  "py_iter (JArr xs) = Inr xs"
| "py_iter (JObj kvs) = Inr (map (\<lambda>kv. JStr (fst kv)) kvs)"
| "py_iter (JStr s) = Inr (map (\<lambda>c. JStr [c]) s)"
| "py_iter _ = Inl TypeError"

text \<open>\<^verbatim>\<open>xs[0]\<close>: an empty list raises \<^verbatim>\<open>IndexError\<close>.\<close>

definition first :: "'a list \<Rightarrow> error + 'a" where
  "first xs = (case xs of [] \<Rightarrow> Inl IndexError | x # _ \<Rightarrow> Inr x)"

subsection \<open>Records of the pipeline\<close>

text \<open>
  Modelled from the spec: \<^verbatim>\<open>NeumVector\<close> (\<^verbatim>\<open>neumai/Shared/NeumVector.py\<close>) is imported
  by the sink but not among the sources; section 3 of the specification gives it an id (a
  string), a vector (a sequence of floats) and a metadata mapping that is always present.
\<close>

record NeumVector =
  id_nv :: string
  vector :: "real list"
  metadata :: "(string \<times> json) list"

text \<open>
  Modelled from the spec: \<^verbatim>\<open>NeumSearchResult\<close> (\<^verbatim>\<open>neumai/Shared/NeumSearch.py\<close>) is
  imported by the sink but not among the sources; section 3 of the specification gives it
  the fields id, vector, metadata and score. The fields hold the values the constructor
  is given; any validation of its own is outside the sources.
\<close>

record NeumSearchResult =
  id_sr :: json
  vector_sr :: json
  metadata_sr :: json
  score :: json

text \<open>The fields of the \<^verbatim>\<open>EpsillaSink\<close> class.\<close>

record EpsillaSink =
  project_id :: string
  api_key :: string
  db_id :: string
  table_name :: string

subsection \<open>The client library\<close>

text \<open>
  The requests the connector sends through a database handle, with their keyword
  arguments in the order of the source: \<^verbatim>\<open>list_tables()\<close>,
  \<^verbatim>\<open>create_table(table_name, table_fields)\<close>, \<^verbatim>\<open>insert(table_name, records)\<close>,
  \<^verbatim>\<open>query(table_name, query_field, query_vector, limit, with_distance)\<close> and
  \<^verbatim>\<open>delete(table_name, filter)\<close>.
\<close>

datatype request =
    ListTables
  | CreateTable string "json list"
  | Insert string "json list"
  | Query string string "real list" int bool
  | Delete string string

text \<open>
  The library, over a state \<open>'s\<close> of the remote side, with client handles \<open>'c\<close> and
  database handles \<open>'d\<close>. Every call either raises (\<open>Inl\<close>, the text of the exception) or
  returns; a database request returns the pair of a status code and a response body.
\<close>

record ('s, 'c, 'd) cloud =
  Client :: "string \<Rightarrow> string \<Rightarrow> 's \<Rightarrow> (string + 'c) \<times> 's"
  validate :: "'c \<Rightarrow> 's \<Rightarrow> (string + json) \<times> 's"
  vectordb :: "'c \<Rightarrow> string \<Rightarrow> 's \<Rightarrow> (string + 'd) \<times> 's"
  db_request :: "'d \<Rightarrow> request \<Rightarrow> 's \<Rightarrow> (string + int \<times> json) \<times> 's"

text \<open>
  Sequencing of steps that may raise: the first error ends the operation, in the state
  reached so far.
\<close>

definition returns :: "'a \<Rightarrow> 's \<Rightarrow> (error + 'a) \<times> 's" where
  "returns a s = (Inr a, s)"

definition raise :: "error \<Rightarrow> 's \<Rightarrow> (error + 'a) \<times> 's" where
  "raise e s = (Inl e, s)"

definition lift :: "error + 'a \<Rightarrow> 's \<Rightarrow> (error + 'a) \<times> 's" where
  "lift r s = (r, s)"

definition and_then ::
  "('s \<Rightarrow> (error + 'a) \<times> 's) \<Rightarrow> ('a \<Rightarrow> 's \<Rightarrow> (error + 'b) \<times> 's) \<Rightarrow> 's \<Rightarrow> (error + 'b) \<times> 's" where
  "and_then m f s = (case m s of (Inl e, s') \<Rightarrow> (Inl e, s') | (Inr a, s') \<Rightarrow> f a s')"

text \<open>A library call inside an operation without \<^verbatim>\<open>try\<close>: its exception propagates.\<close>

definition propagate :: "('s \<Rightarrow> (string + 'a) \<times> 's) \<Rightarrow> 's \<Rightarrow> (error + 'a) \<times> 's" where
  "propagate m s = (case m s of (Inl e, s') \<Rightarrow> (Inl (Raised e), s') | (Inr a, s') \<Rightarrow> (Inr a, s'))"

subsection \<open>The connector\<close>

text \<open>
  \<^verbatim>\<open>validation\<close>: both library calls are inside the \<^verbatim>\<open>try\<close>; an exception \<open>e\<close> of
  either becomes an \<open>EpsillaConnectionException\<close> whose message ends with \<^verbatim>\<open>str(e)\<close>.
  What \<^verbatim>\<open>client.validate()\<close> returns is not bound to a name and not read.
\<close>

definition connection_message :: "string \<Rightarrow> string" where
  "connection_message e =
     ''Epsilla Cloud connection couldn't be initialized. See exception: '' @ e"

definition validation :: "('s, 'c, 'd) cloud \<Rightarrow> EpsillaSink \<Rightarrow> 's \<Rightarrow> (error + bool) \<times> 's" where
  "validation lib self s =
     (case Client lib (project_id self) (api_key self) s of
        (Inl e, s1) \<Rightarrow> (Inl (EpsillaConnectionException (connection_message e)), s1)
      | (Inr client, s1) \<Rightarrow>
          (case validate lib client s1 of
             (Inl e, s2) \<Rightarrow> (Inl (EpsillaConnectionException (connection_message e)), s2)
           | (Inr _, s2) \<Rightarrow> (Inr True, s2)))"

definition get_db :: "('s, 'c, 'd) cloud \<Rightarrow> EpsillaSink \<Rightarrow> 's \<Rightarrow> (error + 'd) \<times> 's" where
  "get_db lib self =
     and_then (propagate (Client lib (project_id self) (api_key self))) (\<lambda>client.
     propagate (vectordb lib client (db_id self)))"

text \<open>
  \<^verbatim>\<open>_extract_numbers\<close>: \<^verbatim>\<open>findall(r'\d+', s)\<close> gives the maximal runs of digits from
  left to right, and \<^verbatim>\<open>int\<close> reads each run in base ten.
\<close>

definition is_digit :: "char \<Rightarrow> bool" where
  "is_digit c = (let n = (of_char c :: nat) in 48 \<le> n \<and> n \<le> 57)"

fun findall_digits :: "string \<Rightarrow> string \<Rightarrow> string list" where
  "findall_digits run [] = (if run = [] then [] else [run])"
| "findall_digits run (c # cs) =
     (if is_digit c then findall_digits (run @ [c]) cs
      else if run = [] then findall_digits [] cs
      else run # findall_digits [] cs)"

definition int_of_digits :: "string \<Rightarrow> int" where
  "int_of_digits ds = foldl (\<lambda>a c. 10 * a + (int (of_char c) - 48)) 0 ds"

definition extract_numbers :: "string \<Rightarrow> int list" where
  "extract_numbers input_string = map int_of_digits (findall_digits [] input_string)"

text \<open>
  \<^verbatim>\<open>_extract_numbers\<close> is declared in the class body with the one parameter
  \<^verbatim>\<open>input_string\<close> and without \<^verbatim>\<open>@staticmethod\<close>, and \<^verbatim>\<open>store\<close> calls it as
  \<^verbatim>\<open>self._extract_numbers(response["message"])\<close>. The attribute lookup on the instance
  gives a bound method, so the function receives the instance and the message: two
  positional arguments for one parameter. Python raises \<^verbatim>\<open>TypeError\<close> before the body
  runs. \<open>call_bound\<close> is the call of a function of \<open>params\<close> positional parameters as a
  bound method with \<open>nargs\<close> explicit arguments.
\<close>

definition extract_numbers_params :: nat where
  "extract_numbers_params = 1"

definition call_bound :: "nat \<Rightarrow> nat \<Rightarrow> error + 'a \<Rightarrow> error + 'a" where
  "call_bound params nargs body = (if Suc nargs = params then body else Inl TypeError)"

text \<open>The body of \<^verbatim>\<open>_extract_numbers\<close> on any value: \<^verbatim>\<open>findall\<close> wants a string.\<close>

definition extract_numbers_body :: "json \<Rightarrow> error + int list" where
  "extract_numbers_body v = (case v of JStr s \<Rightarrow> Inr (extract_numbers s) | _ \<Rightarrow> Inl TypeError)"

text \<open>
  \<^verbatim>\<open>store\<close>, lines 84 to 115. The schema of a new table is the literal of lines 93 to 98;
  \<open>encode\<close> is the body of the loop of lines 103 to 110, where the conditional expression
  of line 108 evaluates its condition \<^verbatim>\<open>vec.metadata["_file_entry_id"]\<close> first.
\<close>

definition storing_failed :: error where
  "storing_failed = EpsillaInsertionException ''Epsilla storing failed. Try later''"

definition table_fields :: "int \<Rightarrow> json list" where
  "table_fields dimensions =
     [JObj [(''name'', JStr ''id''), (''dataType'', JStr ''STRING'')],
      JObj [(''name'', JStr ''vector''), (''dataType'', JStr ''VECTOR_FLOAT''),
            (''dimensions'', JInt dimensions)],
      JObj [(''name'', JStr ''metadata''), (''dataType'', JStr ''JSON'')],
      JObj [(''name'', JStr ''file_entry_id''), (''dataType'', JStr ''STRING'')]]"

definition encode :: "NeumVector \<Rightarrow> error + json" where
  "encode vec =
     (case dict_getitem (metadata vec) ''_file_entry_id'' of
        Inl e \<Rightarrow> Inl e
      | Inr fid \<Rightarrow>
          Inr (JObj
            [(''id'', JStr (id_nv vec)),
             (''vector'', JArr (map JFloat (vector vec))),
             (''metadata'', JObj (if metadata vec \<noteq> [] then metadata vec else [])),
             (''file_entry_id'', if py_truthy fid then fid else JStr [])]))"

fun encode_all :: "NeumVector list \<Rightarrow> error + json list" where
  "encode_all [] = Inr []"
| "encode_all (vec # vecs) =
     (case encode vec of
        Inl e \<Rightarrow> Inl e
      | Inr data \<Rightarrow> (case encode_all vecs of Inl e \<Rightarrow> Inl e | Inr datas \<Rightarrow> Inr (data # datas)))"

text \<open>
  Lines 88 to 100: the listing, and the creation of the table when its name is not in
  the listing. The second status check (line 99) reads the status of the creation when
  there was one, of the listing otherwise.
\<close>

definition ensure_table ::
  "('s, 'c, 'd) cloud \<Rightarrow> EpsillaSink \<Rightarrow> NeumVector list \<Rightarrow> 'd \<Rightarrow> 's \<Rightarrow> (error + unit) \<times> 's" where
  "ensure_table lib self vectors_to_store db =
     and_then (propagate (db_request lib db ListTables)) (\<lambda>(status_code, response).
     if status_code \<noteq> 200 then raise storing_failed
     else
     and_then (lift (py_getitem response ''result'')) (\<lambda>tables.
     and_then (lift (py_not_in (table_name self) tables)) (\<lambda>absent.
     and_then
       (if absent then
          and_then (lift (first vectors_to_store)) (\<lambda>vec0.
          propagate (db_request lib db
            (CreateTable (table_name self) (table_fields (int (length (vector vec0)))))))
        else returns (status_code, response)) (\<lambda>(status_code, response).
     if status_code \<noteq> 200 then raise storing_failed else returns ()))))"

text \<open>Lines 112 to 115: the insert request and the value returned.\<close>

definition insert_records ::
  "('s, 'c, 'd) cloud \<Rightarrow> EpsillaSink \<Rightarrow> 'd \<Rightarrow> json list \<Rightarrow> 's \<Rightarrow> (error + int list) \<times> 's" where
  "insert_records lib self db datas =
     and_then (propagate (db_request lib db (Insert (table_name self) datas)))
       (\<lambda>(status_code, response).
     if status_code \<noteq> 200 then raise storing_failed
     else
     and_then (lift (py_getitem response ''message'')) (\<lambda>message.
     lift (call_bound extract_numbers_params 1 (extract_numbers_body message))))"

definition store ::
  "('s, 'c, 'd) cloud \<Rightarrow> EpsillaSink \<Rightarrow> NeumVector list \<Rightarrow> 's \<Rightarrow> (error + int list) \<times> 's" where
  "store lib self vectors_to_store =
     and_then (get_db lib self) (\<lambda>db.
     and_then (ensure_table lib self vectors_to_store db) (\<lambda>_.
     and_then (lift (encode_all vectors_to_store)) (\<lambda>datas.
     insert_records lib self db datas)))"

text \<open>
  \<^verbatim>\<open>search\<close>, lines 117 to 148. The parameter \<^verbatim>\<open>filter\<close> is not read: the code that
  built a filter string from it is commented out (lines 122 to 127). \<open>to_result\<close> is the
  body of the loop of lines 139 to 147; the keyword arguments are evaluated in order.
\<close>

definition to_result :: "json \<Rightarrow> error + NeumSearchResult" where
  "to_result result =
     (case py_getitem result ''id'' of Inl e \<Rightarrow> Inl e | Inr i \<Rightarrow>
     (case py_getitem result ''vector'' of Inl e \<Rightarrow> Inl e | Inr v \<Rightarrow>
     (case py_getitem result ''metadata'' of Inl e \<Rightarrow> Inl e | Inr m \<Rightarrow>
     (case py_getitem result ''@distance'' of Inl e \<Rightarrow> Inl e | Inr d \<Rightarrow>
        Inr \<lparr>id_sr = i, vector_sr = v, metadata_sr = m, score = d\<rparr>))))"

fun to_results :: "json list \<Rightarrow> error + NeumSearchResult list" where
  "to_results [] = Inr []"
| "to_results (result # results) =
     (case to_result result of
        Inl e \<Rightarrow> Inl e
      | Inr r \<Rightarrow> (case to_results results of Inl e \<Rightarrow> Inl e | Inr rs \<Rightarrow> Inr (r # rs)))"

definition search ::
  "('s, 'c, 'd) cloud \<Rightarrow> EpsillaSink \<Rightarrow> real list \<Rightarrow> int \<Rightarrow> (string \<times> json) list \<Rightarrow> 's \<Rightarrow>
     (error + NeumSearchResult list) \<times> 's" where
  "search lib self vec number_of_results filter_arg =
     and_then (get_db lib self) (\<lambda>db.
     and_then (propagate (db_request lib db
       (Query (table_name self) ''vector'' vec number_of_results True)))
       (\<lambda>(status_code, response).
     if status_code \<noteq> 200 then
       and_then (lift (py_getitem response ''message'')) (\<lambda>message.
       raise (EpsillaQueryException ''Failed to query Epsilla. Exception - '' message))
     else
     and_then (lift (py_getitem response ''result'')) (\<lambda>matches.
     and_then (lift (py_iter matches)) (\<lambda>results.
     lift (to_results results)))))"

text \<open>
  \<^verbatim>\<open>delete_vectors_with_file_id\<close>, lines 160 to 166: the filter is the f-string
  \<^verbatim>\<open>f"file_entry_id = {file_id}"\<close>, the identifier appended as it is.
\<close>

definition deletion_failed :: error where
  "deletion_failed = EpsillaInsertionException ''Epsilla deletion failed. Try later''"

definition delete_filter :: "string \<Rightarrow> string" where
  "delete_filter file_id = ''file_entry_id = '' @ file_id"

definition delete_vectors_with_file_id ::
  "('s, 'c, 'd) cloud \<Rightarrow> EpsillaSink \<Rightarrow> string \<Rightarrow> 's \<Rightarrow> (error + bool) \<times> 's" where
  "delete_vectors_with_file_id lib self file_id =
     and_then (get_db lib self) (\<lambda>db.
     and_then (propagate (db_request lib db (Delete (table_name self) (delete_filter file_id))))
       (\<lambda>(status_code, response).
     if status_code \<noteq> 200 then raise deletion_failed else returns True))"

subsection \<open>Observing the requests\<close>

text \<open>
  The same library with a log beside its state: every database request is appended to
  the log, with the library's answer, once the library has answered it. The log of an
  operation is the sequence of database requests it sent.
\<close>

type_synonym log = "(request \<times> (string + int \<times> json)) list"

definition logged :: "('s, 'c, 'd) cloud \<Rightarrow> ('s \<times> log, 'c, 'd) cloud" where
  "logged lib =
     \<lparr>Client = (\<lambda>p k (s, log). (case Client lib p k s of (r, s') \<Rightarrow> (r, (s', log)))),
      validate = (\<lambda>c (s, log). (case validate lib c s of (r, s') \<Rightarrow> (r, (s', log)))),
      vectordb = (\<lambda>c i (s, log). (case vectordb lib c i s of (r, s') \<Rightarrow> (r, (s', log)))),
      db_request = (\<lambda>d q (s, log).
        (case db_request lib d q s of (r, s') \<Rightarrow> (r, (s', log @ [(q, r)]))))\<rparr>"

definition log_of :: "'r \<times> 's \<times> log \<Rightarrow> log" where
  "log_of out = snd (snd out)"

definition requests_of :: "'r \<times> 's \<times> log \<Rightarrow> request list" where
  "requests_of out = map fst (log_of out)"

text \<open>A logged answer that is a status other than 200.\<close>

fun failed_status :: "request \<times> (string + int \<times> json) \<Rightarrow> bool" where
  "failed_status (q, Inr (status_code, response)) = (status_code \<noteq> 200)"
| "failed_status (q, Inl e) = False"

text \<open>An exception of the client library that an operation has let through.\<close>

fun is_raised :: "error \<Rightarrow> bool" where
  "is_raised (Raised e) = True"
| "is_raised _ = False"

fun is_create :: "request \<Rightarrow> bool" where
  "is_create (CreateTable n fs) = True"
| "is_create _ = False"

fun is_insert :: "request \<Rightarrow> bool" where
  "is_insert (Insert n recs) = True"
| "is_insert _ = False"

text \<open>
  What the service is expected to send as one match of a query, a dictionary with the
  four keys the loop of \<^verbatim>\<open>search\<close> reads, and what it means that a search result
  mirrors a match.
\<close>

definition is_match :: "json \<Rightarrow> bool" where
  "is_match m =
     (case m of
        JObj kvs \<Rightarrow> list_all (\<lambda>k. map_of kvs k \<noteq> None) [''id'', ''vector'', ''metadata'', ''@distance'']
      | _ \<Rightarrow> False)"

definition mirrors :: "json \<Rightarrow> NeumSearchResult \<Rightarrow> bool" where
  "mirrors m r =
     (py_getitem m ''id'' = Inr (id_sr r) \<and> py_getitem m ''vector'' = Inr (vector_sr r) \<and>
      py_getitem m ''metadata'' = Inr (metadata_sr r) \<and> py_getitem m ''@distance'' = Inr (score r))"

subsection \<open>Libraries for concrete runs\<close>

text \<open>
  A library without state that answers every database request by a fixed function of
  the request, and never raises.
\<close>

definition scripted :: "(request \<Rightarrow> int \<times> json) \<Rightarrow> (unit, unit, unit) cloud" where
  "scripted reply =
     \<lparr>Client = (\<lambda>p k s. (Inr (), s)),
      validate = (\<lambda>c s. (Inr (JObj []), s)),
      vectordb = (\<lambda>c i s. (Inr (), s)),
      db_request = (\<lambda>d q s. (Inr (reply q), s))\<rparr>"

text \<open>
  A service that holds the table \<open>docs\<close>, accepts every request, confirms an insert with
  a sentence and answers a query with two matches.
\<close>

definition match_a :: json where
  "match_a = JObj [(''@distance'', JFloat 0.25), (''id'', JStr ''a''),
     (''metadata'', JObj [(''_file_entry_id'', JStr ''f1'')]),
     (''vector'', JArr [JFloat 0.1, JFloat 0.2])]"

definition match_b :: json where
  "match_b = JObj [(''@distance'', JFloat 0.5), (''id'', JStr ''b''),
     (''metadata'', JObj [(''_file_entry_id'', JStr ''f2'')]),
     (''vector'', JArr [JFloat 0.3, JFloat 0.4])]"

fun healthy :: "request \<Rightarrow> int \<times> json" where
  "healthy ListTables = (200, JObj [(''statusCode'', JInt 200), (''result'', JArr [JStr ''docs''])])"
| "healthy (CreateTable n fs) = (200, JObj [(''statusCode'', JInt 200), (''message'', JStr ''created'')])"
| "healthy (Insert n recs) =
     (200, JObj [(''statusCode'', JInt 200), (''message'', JStr ''3 objects inserted into segment 5'')])"
| "healthy (Query n f v k d) = (200, JObj [(''statusCode'', JInt 200), (''result'', JArr [match_a, match_b])])"
| "healthy (Delete n f) = (200, JObj [(''statusCode'', JInt 200), (''message'', JStr ''deleted'')])"

text \<open>A service that refuses every request.\<close>

definition refusing :: "request \<Rightarrow> int \<times> json" where
  "refusing q = (401, JObj [(''statusCode'', JInt 401), (''message'', JStr ''unauthorized'')])"

text \<open>
  A service with state, the names of its tables: it lists them, creates a table that is
  asked for, and refuses everything else.
\<close>

definition outage :: "(string list, unit, unit) cloud" where
  "outage =
     \<lparr>Client = (\<lambda>p k s. (Inr (), s)),
      validate = (\<lambda>c s. (Inr (JObj []), s)),
      vectordb = (\<lambda>c i s. (Inr (), s)),
      db_request = (\<lambda>d q s.
        (case q of
           ListTables \<Rightarrow> (Inr (200, JObj [(''result'', JArr (map JStr s))]), s)
         | CreateTable n fs \<Rightarrow> (Inr (200, JObj [(''message'', JStr ''created'')]), s @ [n])
         | _ \<Rightarrow> (Inr (500, JObj [(''message'', JStr ''unavailable'')]), s)))\<rparr>"

text \<open>Libraries whose client cannot be built, or whose check raises.\<close>

definition unreachable :: "(unit, unit, unit) cloud" where
  "unreachable = (scripted healthy)\<lparr>validate := (\<lambda>c s. (Inl ''timed out'', s))\<rparr>"

definition no_client :: "(unit, unit, unit) cloud" where
  "no_client = (scripted healthy)\<lparr>Client := (\<lambda>p k s. (Inl ''bad key'', s))\<rparr>"

text \<open>
  A library whose check returns, without raising, the body of a refusal: the key was
  rejected with status 401.
\<close>

definition rejecting :: "(unit, unit, unit) cloud" where
  "rejecting =
     (scripted refusing)\<lparr>validate := (\<lambda>c s.
        (Inr (JObj [(''statusCode'', JInt 401), (''message'', JStr ''unauthorized'')]), s))\<rparr>"

text \<open>Libraries that raise when the database handle is asked for, or on every request.\<close>

definition no_database :: "(unit, unit, unit) cloud" where
  "no_database = (scripted healthy)\<lparr>vectordb := (\<lambda>c i s. (Inl ''Invalid db_id'', s))\<rparr>"

definition dropping :: "(unit, unit, unit) cloud" where
  "dropping = (scripted healthy)\<lparr>db_request := (\<lambda>d q s. (Inl ''connection reset'', s))\<rparr>"

text \<open>A sink on the table \<open>docs\<close>, one on a table the service does not hold, and records.\<close>

definition docs_sink :: EpsillaSink where
  "docs_sink = \<lparr>project_id = ''p'', api_key = ''k'', db_id = ''d'', table_name = ''docs''\<rparr>"

definition new_sink :: EpsillaSink where
  "new_sink = \<lparr>project_id = ''p'', api_key = ''k'', db_id = ''d'', table_name = ''fresh''\<rparr>"

definition rec_a :: NeumVector where
  "rec_a = \<lparr>id_nv = ''a'', vector = [0.1, 0.2], metadata = [(''_file_entry_id'', JStr ''f1'')]\<rparr>"

definition rec_bare :: NeumVector where
  "rec_bare = \<lparr>id_nv = ''b'', vector = [0.3, 0.4], metadata = []\<rparr>"

section \<open>Properties\<close>

subsection \<open>Running an operation against the logging library\<close>

lemma db_request_logged:
  "db_request (logged lib) d q (s, l) =
     (case db_request lib d q s of (r, s') \<Rightarrow> (r, s', l @ [(q, r)]))"
  by (simp add: logged_def)

lemma get_db_logged:
  "get_db (logged lib) self (s, l) = (case get_db lib self s of (r, s') \<Rightarrow> (r, s', l))"
  by (simp add: get_db_def logged_def and_then_def propagate_def split: prod.splits sum.splits)

lemmas run_defs = and_then_def propagate_def raise_def returns_def lift_def db_request_logged
  get_db_logged

lemmas store_defs = store_def ensure_table_def insert_records_def first_def

text \<open>The insert stage sends one request, and never returns a value.\<close>

lemma insert_records_log:
  "log_of (insert_records (logged lib) self db datas (s, l)) =
     l @ [(Insert (table_name self) datas, fst (db_request lib db (Insert (table_name self) datas) s))]"
  by (simp add: insert_records_def run_defs log_of_def split: prod.splits sum.splits)

lemma insert_records_raises: "isl (fst (insert_records lib self db datas s))"
  by (simp add: insert_records_def and_then_def propagate_def raise_def lift_def call_bound_def
      extract_numbers_params_def split: prod.splits sum.splits)

lemma insert_records_not_IndexError:
  "fst (insert_records lib self db datas s) \<noteq> Inl IndexError"
  by (auto simp add: insert_records_def and_then_def propagate_def raise_def lift_def 
      call_bound_def extract_numbers_params_def storing_failed_def dict_getitem_def
      split: prod.splits sum.splits option.splits elim!: py_getitem.elims)

lemma store_raises: "isl (fst (store lib self vs s))"
proof -
  have "isl (fst (and_then m (\<lambda>datas. insert_records lib self db datas) t))" for m db t
    using insert_records_raises [of lib self db]
    by (simp add: and_then_def split: prod.splits sum.splits)
  then show ?thesis
    by (simp add: store_def and_then_def split: prod.splits sum.splits)
qed

text \<open>The steps of \<open>store\<close> once the listing has answered with status 200.\<close>

lemma store_present:
  assumes "get_db lib self s = (Inr db, s0)"
    and "db_request lib db ListTables s0 = (Inr (200, response), s1)"
    and "py_getitem response ''result'' = Inr (JArr names)"
    and "JStr (table_name self) \<in> set names"
  shows "store (logged lib) self vs (s, l) =
           (case encode_all vs of
              Inl e \<Rightarrow> (Inl e, s1, l @ [(ListTables, Inr (200, response))])
            | Inr datas \<Rightarrow>
                insert_records (logged lib) self db datas
                  (s1, l @ [(ListTables, Inr (200, response))]))"
  using assms by (simp add: store_def ensure_table_def run_defs split: sum.splits)

lemma store_absent_empty:
  assumes "get_db lib self s = (Inr db, s0)"
    and "db_request lib db ListTables s0 = (Inr (200, response), s1)"
    and "py_getitem response ''result'' = Inr (JArr names)"
    and "JStr (table_name self) \<notin> set names"
  shows "store (logged lib) self [] (s, l) =
           (Inl IndexError, s1, l @ [(ListTables, Inr (200, response))])"
  using assms by (simp add: store_def ensure_table_def run_defs first_def)

lemma store_absent:
  assumes "get_db lib self s = (Inr db, s0)"
    and "db_request lib db ListTables s0 = (Inr (200, response), s1)"
    and "py_getitem response ''result'' = Inr (JArr names)"
    and "JStr (table_name self) \<notin> set names"
    and "db_request lib db
           (CreateTable (table_name self) (table_fields (int (length (vector vec0))))) s1 = (r2, s2)"
  shows "store (logged lib) self (vec0 # rest) (s, l) =
           (let l2 = l @ [(ListTables, Inr (200, response)),
                  (CreateTable (table_name self) (table_fields (int (length (vector vec0)))), r2)]
            in case r2 of
                 Inl e \<Rightarrow> (Inl (Raised e), s2, l2)
               | Inr (status_code, response2) \<Rightarrow>
                   if status_code \<noteq> 200 then (Inl storing_failed, s2, l2)
                   else (case encode_all (vec0 # rest) of
                           Inl e \<Rightarrow> (Inl e, s2, l2)
                         | Inr datas \<Rightarrow> insert_records (logged lib) self db datas (s2, l2)))"
  using assms by (simp add: store_def ensure_table_def run_defs first_def split: sum.splits)

lemma store_logged:
  "fst (store (logged lib) self vs (s, l)) = fst (store lib self vs s) \<and>
   fst (snd (store (logged lib) self vs (s, l))) = snd (store lib self vs s)"
proof -
  obtain rg s0 where G: "get_db lib self s = (rg, s0)"
    by fastforce
  show ?thesis
  proof (cases rg)
    case (Inl e)
    with G show ?thesis
      by (simp add: store_def run_defs)
  next
    case (Inr db)
    obtain r1 s1 where L: "db_request lib db ListTables s0 = (r1, s1)"
      by fastforce
    obtain r2 s2 where
      C: "db_request lib db
            (CreateTable (table_name self) (table_fields (int (length (vector (hd vs)))))) s1 = (r2, s2)"
      by fastforce
    obtain r3 s3 where
      I1: "db_request lib db (Insert (table_name self) (projr (encode_all vs))) s1 = (r3, s3)"
      by fastforce
    obtain r4 s4 where
      I2: "db_request lib db (Insert (table_name self) (projr (encode_all vs))) s2 = (r4, s4)"
      by fastforce
    show ?thesis
    proof (cases vs)
      case Nil
      with G Inr L I1 show ?thesis
        by (simp add: store_defs run_defs split: sum.splits)
    next
      case (Cons v rest)
      show ?thesis
      proof (cases "encode_all vs")
        case (Inl e)
        with G Inr L C Cons show ?thesis
          unfolding store_defs
          by (simp add: run_defs split: sum.splits)
      next
        case enc: (Inr datas)
        with G Inr L C I1 I2 Cons show ?thesis
          unfolding store_defs
          by (simp add: run_defs split: sum.splits)
      qed
    qed
  qed
qed


lemma search_logged:
  "fst (search (logged lib) self v k f (s, l)) = fst (search lib self v k f s) \<and>
   fst (snd (search (logged lib) self v k f (s, l))) = snd (search lib self v k f s)"
  by (simp add: search_def run_defs split: prod.splits sum.splits)

lemma delete_logged:
  "fst (delete_vectors_with_file_id (logged lib) self file_id (s, l)) =
     fst (delete_vectors_with_file_id lib self file_id s) \<and>
   fst (snd (delete_vectors_with_file_id (logged lib) self file_id (s, l))) =
     snd (delete_vectors_with_file_id lib self file_id s)"
  by (simp add: delete_vectors_with_file_id_def run_defs split: prod.splits sum.splits)

lemma to_results_mirrors:
  "to_results ms = Inr rs \<Longrightarrow> list_all2 mirrors ms rs"
proof (induction ms arbitrary: rs)
  case Nil
  then show ?case by simp
next
  case (Cons m ms)
  then show ?case
    by (auto simp add: to_result_def mirrors_def split: sum.splits)
qed

lemma to_result_match: "is_match m \<Longrightarrow> \<not> isl (to_result m)"
  by (cases m) (auto simp add: is_match_def to_result_def dict_getitem_def split: option.splits)

lemma to_results_matches: "list_all is_match ms \<Longrightarrow> \<not> isl (to_results ms)"
proof (induction ms)
  case Nil
  then show ?case by simp
next
  case (Cons m ms)
  then show ?case
    using to_result_match [of m] by (auto split: sum.splits)
qed

lemma encode_missing_key:
  "map_of (metadata vec) ''_file_entry_id'' = None \<Longrightarrow> encode vec = Inl (KeyError ''_file_entry_id'')"
  by (simp add: encode_def dict_getitem_def)

subsection \<open>Concrete runs\<close>

lemmas eval_defs = store_defs run_defs search_def delete_vectors_with_file_id_def validation_def
  get_db_def scripted_def outage_def unreachable_def no_client_def refusing_def logged_def
  docs_sink_def new_sink_def rec_a_def rec_bare_def match_a_def match_b_def
  encode_def dict_getitem_def table_fields_def storing_failed_def deletion_failed_def
  delete_filter_def call_bound_def extract_numbers_params_def extract_numbers_body_def
  to_result_def log_of_def requests_of_def connection_message_def

lemma extract_numbers_example: "extract_numbers ''3 objects inserted into segment 5'' = [3, 5]"
  by (simp add: extract_numbers_def int_of_digits_def is_digit_def)

lemma healthy_store_run:
  "store (logged (scripted healthy)) docs_sink [rec_a] ((), []) =
     (Inl TypeError, (),
      [(ListTables, Inr (200, JObj [(''statusCode'', JInt 200), (''result'', JArr [JStr ''docs''])])),
       (Insert ''docs''
          [JObj [(''id'', JStr ''a''), (''vector'', JArr [JFloat 0.1, JFloat 0.2]),
                 (''metadata'', JObj [(''_file_entry_id'', JStr ''f1'')]),
                 (''file_entry_id'', JStr ''f1'')]],
        Inr (200, JObj [(''statusCode'', JInt 200),
                        (''message'', JStr ''3 objects inserted into segment 5'')]))])"
  by (simp add: eval_defs)

lemma outage_store_run:
  "store (logged outage) new_sink [rec_a] ([], []) =
     (Inl (EpsillaInsertionException ''Epsilla storing failed. Try later''), [''fresh''],
      [(ListTables, Inr (200, JObj [(''result'', JArr [])])),
       (CreateTable ''fresh'' (table_fields 2), Inr (200, JObj [(''message'', JStr ''created'')])),
       (Insert ''fresh''
          [JObj [(''id'', JStr ''a''), (''vector'', JArr [JFloat 0.1, JFloat 0.2]),
                 (''metadata'', JObj [(''_file_entry_id'', JStr ''f1'')]),
                 (''file_entry_id'', JStr ''f1'')]],
        Inr (500, JObj [(''message'', JStr ''unavailable'')]))])"
  by (simp add: eval_defs)

section \<open>The claims\<close>

subsection \<open>Storing a batch\<close>

text \<open>
  Claim C1: for a non-empty batch whose insert request is answered with status 200,
  \<open>store\<close> should return the integers of the confirmation message, \<open>[3, 5]\<close> for
  \<^verbatim>\<open>"3 objects inserted into segment 5"\<close>. The function \<open>extract_numbers\<close> does compute
  that list, but \<open>store\<close> never gets it: the call passes the instance and the message to a
  function of one parameter. For the batch of one record against a service that holds
  the table and confirms the insert with that message, the insert is the last request,
  it was answered with status 200, and \<open>store\<close> raises \<^verbatim>\<open>TypeError\<close>. (By \<open>store_raises\<close>
  no run of \<open>store\<close> returns a value.)
\<close>

theorem store_success_raises_TypeError:
  "fst (store (scripted healthy) docs_sink [rec_a] ()) = Inl TypeError \<and>
   last (log_of (store (logged (scripted healthy)) docs_sink [rec_a] ((), []))) =
     (Insert ''docs''
        [JObj [(''id'', JStr ''a''), (''vector'', JArr [JFloat 0.1, JFloat 0.2]),
               (''metadata'', JObj [(''_file_entry_id'', JStr ''f1'')]),
               (''file_entry_id'', JStr ''f1'')]],
      Inr (200, JObj [(''statusCode'', JInt 200),
                      (''message'', JStr ''3 objects inserted into segment 5'')])) \<and>
   extract_numbers ''3 objects inserted into segment 5'' = [3, 5]"
proof -
  have "fst (store (scripted healthy) docs_sink [rec_a] ()) =
          fst (store (logged (scripted healthy)) docs_sink [rec_a] ((), []))"
    by (simp add: store_logged)
  then show ?thesis
    by (simp add: healthy_store_run extract_numbers_example log_of_def)
qed

text \<open>
  Claim C3: a record whose metadata has no key \<^verbatim>\<open>_file_entry_id\<close> should get the empty
  string as its \<^verbatim>\<open>file_entry_id\<close>. The code substitutes the empty string only for a
  value that is present and false; the subscript of line 108 raises \<^verbatim>\<open>KeyError\<close> for a
  missing key (\<open>encode_missing_key\<close>). For a batch whose second record has empty metadata
  \<open>store\<close> raises \<^verbatim>\<open>KeyError\<close> after the listing, and sends no insert request.
\<close>

theorem store_missing_file_entry_id_raises_KeyError:
  "encode rec_bare = Inl (KeyError ''_file_entry_id'') \<and>
   fst (store (scripted healthy) docs_sink [rec_a, rec_bare] ()) = Inl (KeyError ''_file_entry_id'') \<and>
   requests_of (store (logged (scripted healthy)) docs_sink [rec_a, rec_bare] ((), [])) = [ListTables]"
  by (simp add: eval_defs)

text \<open>
  Claim C2, as amended: whenever a request of \<open>store\<close> (listing, creation or insert) is
  answered with a status other than 200, \<open>store\<close> raises the insertion exception, that
  request is the last one it sends, and no insert request of the run was accepted. (What
  an earlier request of the same run has changed stays changed: nothing is rolled
  back.)
\<close>

theorem store_failed_status:
  assumes "entry \<in> set (log_of (store (logged lib) self vs (s, [])))" and "failed_status entry"
  shows "fst (store (logged lib) self vs (s, [])) =
           Inl (EpsillaInsertionException ''Epsilla storing failed. Try later'') \<and>
         last (log_of (store (logged lib) self vs (s, []))) = entry \<and>
         filter (\<lambda>e. is_insert (fst e) \<and> \<not> failed_status e)
           (log_of (store (logged lib) self vs (s, []))) = []"
proof -
  obtain r s' es where O: "store (logged lib) self vs (s, []) = (r, s', es)"
    by (metis prod_cases3)
  obtain rg s0 where G: "get_db lib self s = (rg, s0)"
    by fastforce
  have "r = Inl (EpsillaInsertionException ''Epsilla storing failed. Try later'') \<and>
        last es = entry \<and> filter (\<lambda>e. is_insert (fst e) \<and> \<not> failed_status e) es = []"
    if "entry \<in> set es"
  proof (cases rg)
    case (Inl e)
    with G O that show ?thesis
      by (simp add: store_def run_defs)
  next
    case (Inr db)
    obtain r1 s1 where L: "db_request lib db ListTables s0 = (r1, s1)"
      by fastforce
    obtain r2 s2 where
      C: "db_request lib db
            (CreateTable (table_name self) (table_fields (int (length (vector (hd vs)))))) s1 = (r2, s2)"
      by fastforce
    obtain r3 s3 where
      I1: "db_request lib db (Insert (table_name self) (projr (encode_all vs))) s1 = (r3, s3)"
      by fastforce
    obtain r4 s4 where
      I2: "db_request lib db (Insert (table_name self) (projr (encode_all vs))) s2 = (r4, s4)"
      by fastforce
    show ?thesis
    proof (cases vs)
      case Nil
      with G Inr L I1 O that assms(2) show ?thesis
        unfolding store_defs storing_failed_def
        by (auto simp add: run_defs split: sum.splits if_splits)
    next
      case (Cons v rest)
      show ?thesis
      proof (cases "encode_all vs")
        case (Inl e)
        with G Inr L C Cons O that assms(2) show ?thesis
          unfolding store_defs storing_failed_def
          by (auto simp add: run_defs split: sum.splits if_splits)
      next
        case enc: (Inr datas)
        with G Inr L C I1 I2 Cons O that assms(2) show ?thesis
          unfolding store_defs storing_failed_def
          by (auto simp add: run_defs split: sum.splits if_splits)
      qed
    qed
  qed
  with assms(1) O show ?thesis
    by (simp add: log_of_def)
qed

text \<open>
  An instance: the table is absent, its creation is accepted and the insert is refused
  with status 500.
\<close>

theorem store_failed_status_witness:
  "(Insert ''fresh''
      [JObj [(''id'', JStr ''a''), (''vector'', JArr [JFloat 0.1, JFloat 0.2]),
             (''metadata'', JObj [(''_file_entry_id'', JStr ''f1'')]),
             (''file_entry_id'', JStr ''f1'')]],
    Inr (500, JObj [(''message'', JStr ''unavailable'')]))
     \<in> set (log_of (store (logged outage) new_sink [rec_a] ([], []))) \<and>
   fst (store (logged outage) new_sink [rec_a] ([], [])) =
     Inl (EpsillaInsertionException ''Epsilla storing failed. Try later'') \<and>
   last (log_of (store (logged outage) new_sink [rec_a] ([], []))) =
     (Insert ''fresh''
        [JObj [(''id'', JStr ''a''), (''vector'', JArr [JFloat 0.1, JFloat 0.2]),
               (''metadata'', JObj [(''_file_entry_id'', JStr ''f1'')]),
               (''file_entry_id'', JStr ''f1'')]],
      Inr (500, JObj [(''message'', JStr ''unavailable'')])) \<and>
   filter (\<lambda>e. is_insert (fst e) \<and> \<not> failed_status e)
     (log_of (store (logged outage) new_sink [rec_a] ([], []))) = []"
proof -
  let ?entry = "(Insert ''fresh''
      [JObj [(''id'', JStr ''a''), (''vector'', JArr [JFloat 0.1, JFloat 0.2]),
             (''metadata'', JObj [(''_file_entry_id'', JStr ''f1'')]),
             (''file_entry_id'', JStr ''f1'')]],
    Inr (500, JObj [(''message'', JStr ''unavailable'')]))"
  have m: "?entry \<in> set (log_of (store (logged outage) new_sink [rec_a] ([], [])))"
    by (simp add: outage_store_run log_of_def)
  have f: "failed_status ?entry"
    by simp
  from store_failed_status [OF m f] m show ?thesis
    by blast
qed

text \<open>
  Claim C2 as stated fails: against a service that creates the table and then refuses
  the insert, \<open>store\<close> raises the insertion exception and leaves the remote state
  changed. The listing was empty before the call and holds the new table after it.
\<close>

theorem store_leaves_created_table:
  "fst (store outage new_sink [rec_a] []) =
     Inl (EpsillaInsertionException ''Epsilla storing failed. Try later'') \<and>
   snd (store outage new_sink [rec_a] []) = [''fresh''] \<and>
   fst (db_request outage () ListTables []) = Inr (200, JObj [(''result'', JArr [])]) \<and>
   fst (db_request outage () ListTables (snd (store outage new_sink [rec_a] []))) =
     Inr (200, JObj [(''result'', JArr [JStr ''fresh''])])"
proof -
  have "fst (store outage new_sink [rec_a] []) =
          fst (store (logged outage) new_sink [rec_a] ([], []))"
    and "snd (store outage new_sink [rec_a] []) =
          fst (snd (store (logged outage) new_sink [rec_a] ([], [])))"
    by (simp_all add: store_logged)
  then show ?thesis
    by (simp add: outage_store_run) (simp add: outage_def)
qed

text \<open>The healthy service, step by step.\<close>

lemma healthy_get_db: "get_db (scripted healthy) self () = (Inr (), ())"
  by (simp add: get_db_def scripted_def and_then_def propagate_def)

lemma healthy_listing:
  "db_request (scripted healthy) () ListTables () =
     (Inr (200, JObj [(''statusCode'', JInt 200), (''result'', JArr [JStr ''docs''])]), ())"
  by (simp add: scripted_def)

lemma healthy_listing_result:
  "py_getitem (JObj [(''statusCode'', JInt 200), (''result'', JArr [JStr ''docs''])]) ''result'' =
     Inr (JArr [JStr ''docs''])"
  by (simp add: dict_getitem_def)

text \<open>
  Claim C4: for a non-empty batch, once the listing has answered with status 200 and a
  list of names, \<open>store\<close> sends no creation request when the name of the table is in
  the list; when it is not, the second request of \<open>store\<close>, right after the listing, is the
  creation of the table with the four columns \<open>id\<close> (\<open>STRING\<close>), \<open>vector\<close>
  (\<open>VECTOR_FLOAT\<close>, its dimensions the length of the vector of the first record),
  \<open>metadata\<close> (\<open>JSON\<close>) and \<open>file_entry_id\<close> (\<open>STRING\<close>), and it is the only creation
  request of the run.
\<close>

theorem store_creates_table_when_absent:
  assumes "get_db lib self s = (Inr db, s0)"
    and "db_request lib db ListTables s0 = (Inr (200, response), s1)"
    and "py_getitem response ''result'' = Inr (JArr names)"
  shows "(if JStr (table_name self) \<in> set names
          then filter is_create (requests_of (store (logged lib) self (vec0 # rest) (s, []))) = []
          else take 2 (requests_of (store (logged lib) self (vec0 # rest) (s, []))) =
                 [ListTables,
                  CreateTable (table_name self)
                    [JObj [(''name'', JStr ''id''), (''dataType'', JStr ''STRING'')],
                     JObj [(''name'', JStr ''vector''), (''dataType'', JStr ''VECTOR_FLOAT''),
                           (''dimensions'', JInt (int (length (vector vec0))))],
                     JObj [(''name'', JStr ''metadata''), (''dataType'', JStr ''JSON'')],
                     JObj [(''name'', JStr ''file_entry_id''), (''dataType'', JStr ''STRING'')]]] \<and>
               length (filter is_create
                 (requests_of (store (logged lib) self (vec0 # rest) (s, [])))) = 1)"
proof (cases "JStr (table_name self) \<in> set names")
  case True
  show ?thesis
    using True
    by (simp add: store_present [OF assms True] requests_of_def log_of_def insert_records_log [unfolded log_of_def]
        split: sum.splits)
next
  case False
  obtain r2 s2 where
    C: "db_request lib db
          (CreateTable (table_name self) (table_fields (int (length (vector vec0))))) s1 = (r2, s2)"
    by fastforce
  show ?thesis
    using False
    by (simp add: store_absent [OF assms False C] requests_of_def log_of_def Let_def
        insert_records_log [unfolded log_of_def] table_fields_def split: sum.splits)
qed

text \<open>An instance of each case: a table that the service lacks, and one that it holds.\<close>

theorem store_creates_table_when_absent_witness:
  "get_db (scripted healthy) new_sink () = (Inr (), ()) \<and>
   JStr (table_name new_sink) \<notin> set [JStr ''docs''] \<and>
   take 2 (requests_of (store (logged (scripted healthy)) new_sink [rec_a] ((), []))) =
     [ListTables,
      CreateTable ''fresh''
        [JObj [(''name'', JStr ''id''), (''dataType'', JStr ''STRING'')],
         JObj [(''name'', JStr ''vector''), (''dataType'', JStr ''VECTOR_FLOAT''),
               (''dimensions'', JInt 2)],
         JObj [(''name'', JStr ''metadata''), (''dataType'', JStr ''JSON'')],
         JObj [(''name'', JStr ''file_entry_id''), (''dataType'', JStr ''STRING'')]]] \<and>
   length (filter is_create
     (requests_of (store (logged (scripted healthy)) new_sink [rec_a] ((), [])))) = 1 \<and>
   JStr (table_name docs_sink) \<in> set [JStr ''docs''] \<and>
   filter is_create (requests_of (store (logged (scripted healthy)) docs_sink [rec_a] ((), []))) = []"
proof -
  note absent = store_creates_table_when_absent
    [OF healthy_get_db healthy_listing healthy_listing_result, of new_sink rec_a "[]"]
  note present = store_creates_table_when_absent
    [OF healthy_get_db healthy_listing healthy_listing_result, of docs_sink rec_a "[]"]
  from absent present healthy_get_db [of new_sink] show ?thesis
    by (simp add: new_sink_def docs_sink_def rec_a_def)
qed

text \<open>
  Claim C9: the first record is read only when the table is absent. For the empty batch,
  once the listing has answered with status 200 and a list of names: when the name of the
  table is in the list, \<open>store\<close> sends the listing and then an insert of no records, and
  does not fail with \<^verbatim>\<open>IndexError\<close>; when it is not, \<open>store\<close> fails with
  \<^verbatim>\<open>IndexError\<close> and the listing is the only request it has sent.
\<close>

theorem store_empty_batch:
  assumes "get_db lib self s = (Inr db, s0)"
    and "db_request lib db ListTables s0 = (Inr (200, response), s1)"
    and "py_getitem response ''result'' = Inr (JArr names)"
  shows "(if JStr (table_name self) \<in> set names
          then requests_of (store (logged lib) self [] (s, [])) =
                 [ListTables, Insert (table_name self) []] \<and>
               fst (store lib self [] s) \<noteq> Inl IndexError
          else fst (store lib self [] s) = Inl IndexError \<and>
               requests_of (store (logged lib) self [] (s, [])) = [ListTables])"
proof (cases "JStr (table_name self) \<in> set names")
  case True
  have "fst (store lib self [] s) = fst (store (logged lib) self [] (s, []))"
    by (simp add: store_logged)
  then show ?thesis
    using True insert_records_not_IndexError [of "logged lib" self db "[]"]
    by (simp add: store_present [OF assms True] requests_of_def insert_records_log)
next
  case False
  have "fst (store lib self [] s) = fst (store (logged lib) self [] (s, []))"
    by (simp add: store_logged)
  then show ?thesis
    using False
    by (simp add: store_absent_empty [OF assms False] requests_of_def log_of_def)
qed

text \<open>An instance of each case.\<close>

theorem store_empty_batch_witness:
  "get_db (scripted healthy) docs_sink () = (Inr (), ()) \<and>
   JStr (table_name docs_sink) \<in> set [JStr ''docs''] \<and>
   requests_of (store (logged (scripted healthy)) docs_sink [] ((), [])) =
     [ListTables, Insert ''docs'' []] \<and>
   fst (store (scripted healthy) docs_sink [] ()) \<noteq> Inl IndexError \<and>
   JStr (table_name new_sink) \<notin> set [JStr ''docs''] \<and>
   fst (store (scripted healthy) new_sink [] ()) = Inl IndexError \<and>
   requests_of (store (logged (scripted healthy)) new_sink [] ((), [])) = [ListTables]"
proof -
  note present = store_empty_batch
    [OF healthy_get_db healthy_listing healthy_listing_result, of docs_sink]
  note absent = store_empty_batch
    [OF healthy_get_db healthy_listing healthy_listing_result, of new_sink]
  from absent present healthy_get_db [of docs_sink] show ?thesis
    by (simp add: new_sink_def docs_sink_def)
qed

subsection \<open>Searching\<close>

text \<open>
  Claim C5: the filter has no effect. For every library, state, vector and limit, two
  searches that differ only in the filter give the same result and leave the same state
  (the equation holds for the logging library too, so they send the same requests); the
  one request of a search, when the database handle could be built, is the query on
  the table of the sink, on the field \<open>vector\<close>, with the vector and the limit given and
  the distance flag set.
\<close>

theorem search_ignores_filter:
  "search lib self v k f1 s = search lib self v k f2 s \<and>
   requests_of (search (logged lib) self v k f1 (s, [])) =
     (if isl (fst (get_db lib self s)) then []
      else [Query (table_name self) ''vector'' v k True])"
  by (simp add: search_def run_defs requests_of_def log_of_def split: prod.splits sum.splits)

text \<open>An instance: no filter, and a filter on the file entry.\<close>

theorem search_ignores_filter_witness:
  "search (scripted healthy) docs_sink [0.1, 0.2] 2 [] () =
     search (scripted healthy) docs_sink [0.1, 0.2] 2 [(''_file_entry_id'', JStr ''f1'')] () \<and>
   requests_of (search (logged (scripted healthy)) docs_sink [0.1, 0.2] 2 [] ((), [])) =
     [Query ''docs'' ''vector'' [0.1, 0.2] 2 True] \<and>
   requests_of (search (logged (scripted healthy)) docs_sink [0.1, 0.2] 2
       [(''_file_entry_id'', JStr ''f1'')] ((), [])) =
     [Query ''docs'' ''vector'' [0.1, 0.2] 2 True]"
proof -
  have g: "\<not> isl (fst (get_db (scripted healthy) docs_sink ()))"
    by (simp add: eval_defs)
  from search_ignores_filter [where lib = "scripted healthy" and self = docs_sink
      and v = "[0.1, 0.2]" and k = 2 and s = "()" and ?f1.0 = "[]"
      and ?f2.0 = "[(''_file_entry_id'', JStr ''f1'')]"]
    search_ignores_filter [where lib = "scripted healthy" and self = docs_sink
      and v = "[0.1, 0.2]" and k = 2 and s = "()" and ?f2.0 = "[]"
      and ?f1.0 = "[(''_file_entry_id'', JStr ''f1'')]"] g
  show ?thesis
    by (simp add: docs_sink_def)
qed

text \<open>
  Claim C6, as amended: when the query is answered with status 200 and a list of
  matches (dictionaries with the keys \<open>id\<close>, \<open>vector\<close>, \<open>metadata\<close> and \<open>@distance\<close>),
  \<open>search\<close> returns one result per match, in the order of the service, each with the id,
  the vector and the metadata of its match and the distance of the match as its score;
  there are as many results as matches, hence at most \<open>k\<close> whenever the service has sent
  at most \<open>k\<close> matches.
\<close>

theorem search_mirrors_matches:
  assumes "get_db lib self s = (Inr db, s0)"
    and "db_request lib db (Query (table_name self) ''vector'' v k True) s0 =
           (Inr (200, response), s1)"
    and "py_getitem response ''result'' = Inr (JArr ms)"
    and "list_all is_match ms"
  shows "(case fst (search lib self v k f s) of
            Inl e \<Rightarrow> False
          | Inr rs \<Rightarrow> list_all2 mirrors ms rs \<and> length rs = length ms \<and>
              (int (length ms) \<le> k \<longrightarrow> int (length rs) \<le> k))"
proof -
  obtain rs where R: "to_results ms = Inr rs"
    using to_results_matches [OF assms(4)] by (cases "to_results ms") simp_all
  have "fst (search lib self v k f s) = Inr rs"
    using assms(1-3) R by (simp add: search_def and_then_def propagate_def lift_def)
  moreover have "list_all2 mirrors ms rs"
    using R by (rule to_results_mirrors)
  ultimately show ?thesis
    by (simp add: list_all2_lengthD)
qed

text \<open>An instance: two matches for the limit 2.\<close>

theorem search_mirrors_matches_witness:
  "get_db (scripted healthy) docs_sink () = (Inr (), ()) \<and>
   db_request (scripted healthy) () (Query (table_name docs_sink) ''vector'' [0.1, 0.2] 2 True) () =
     (Inr (200, JObj [(''statusCode'', JInt 200), (''result'', JArr [match_a, match_b])]), ()) \<and>
   list_all is_match [match_a, match_b] \<and>
   fst (search (scripted healthy) docs_sink [0.1, 0.2] 2 [] ()) =
     Inr [\<lparr>id_sr = JStr ''a'', vector_sr = JArr [JFloat 0.1, JFloat 0.2],
            metadata_sr = JObj [(''_file_entry_id'', JStr ''f1'')], score = JFloat 0.25\<rparr>,
          \<lparr>id_sr = JStr ''b'', vector_sr = JArr [JFloat 0.3, JFloat 0.4],
            metadata_sr = JObj [(''_file_entry_id'', JStr ''f2'')], score = JFloat 0.5\<rparr>] \<and>
   (case fst (search (scripted healthy) docs_sink [0.1, 0.2] 2 [] ()) of
      Inl e \<Rightarrow> False
    | Inr rs \<Rightarrow> list_all2 mirrors [match_a, match_b] rs \<and> length rs = 2 \<and> int (length rs) \<le> 2)"
proof -
  have g: "get_db (scripted healthy) docs_sink () = (Inr (), ())"
    by (simp add: eval_defs)
  have q: "db_request (scripted healthy) () (Query (table_name docs_sink) ''vector'' [0.1, 0.2] 2 True) () =
     (Inr (200, JObj [(''statusCode'', JInt 200), (''result'', JArr [match_a, match_b])]), ())"
    by (simp add: scripted_def)
  have r: "py_getitem (JObj [(''statusCode'', JInt 200), (''result'', JArr [match_a, match_b])])
      ''result'' = Inr (JArr [match_a, match_b])"
    by (simp add: dict_getitem_def)
  have m: "list_all is_match [match_a, match_b]"
    by (simp add: is_match_def match_a_def match_b_def)
  have e: "fst (search (scripted healthy) docs_sink [0.1, 0.2] 2 [] ()) =
     Inr [\<lparr>id_sr = JStr ''a'', vector_sr = JArr [JFloat 0.1, JFloat 0.2],
            metadata_sr = JObj [(''_file_entry_id'', JStr ''f1'')], score = JFloat 0.25\<rparr>,
          \<lparr>id_sr = JStr ''b'', vector_sr = JArr [JFloat 0.3, JFloat 0.4],
            metadata_sr = JObj [(''_file_entry_id'', JStr ''f2'')], score = JFloat 0.5\<rparr>]"
    by (simp add: eval_defs)
  from search_mirrors_matches [OF g q r m, of "[]"] g q m e show ?thesis
    by (simp split: sum.splits)
qed

text \<open>
  Claim C6 as stated fails: the results are not cut to the limit. The service answers the
  query of limit 1 with two matches, and \<open>search\<close> returns two results.
\<close>

theorem search_returns_more_than_limit:
  "fst (db_request (scripted healthy) () (Query ''docs'' ''vector'' [0.1, 0.2] 1 True) ()) =
     Inr (200, JObj [(''statusCode'', JInt 200), (''result'', JArr [match_a, match_b])]) \<and>
   (case fst (search (scripted healthy) docs_sink [0.1, 0.2] 1 [] ()) of
      Inl e \<Rightarrow> False
    | Inr rs \<Rightarrow> length rs = 2 \<and> \<not> int (length rs) \<le> 1)"
  by (simp add: eval_defs)

subsection \<open>Validating the connection\<close>

text \<open>
  What \<open>validation\<close> does, for every library: it returns \<open>True\<close> exactly when the client
  is built and its check returns without raising, whatever the check returns; when
  either raises, it raises the connection exception, whose message ends with the text of
  the exception caught; it never returns \<open>False\<close>; and it sends no database request.
\<close>

lemma validation_cases:
  "(fst (validation lib self s) = Inr True \<longleftrightarrow>
      (case Client lib (project_id self) (api_key self) s of
         (Inl e, s1) \<Rightarrow> False
       | (Inr client, s1) \<Rightarrow> \<not> isl (fst (validate lib client s1)))) \<and>
   (\<forall>e s1. Client lib (project_id self) (api_key self) s = (Inl e, s1) \<longrightarrow>
      validation lib self s =
        (Inl (EpsillaConnectionException
           (''Epsilla Cloud connection couldn't be initialized. See exception: '' @ e)), s1)) \<and>
   (\<forall>client s1 e s2. Client lib (project_id self) (api_key self) s = (Inr client, s1) \<longrightarrow>
      validate lib client s1 = (Inl e, s2) \<longrightarrow>
      validation lib self s =
        (Inl (EpsillaConnectionException
           (''Epsilla Cloud connection couldn't be initialized. See exception: '' @ e)), s2)) \<and>
   fst (validation lib self s) \<noteq> Inr False \<and>
   log_of (validation (logged lib) self (s, l)) = l"
  by (auto simp add: validation_def connection_message_def logged_def log_of_def
      split: prod.splits sum.splits)

text \<open>
  Runs: a service that answers, a library that cannot build the client, and one whose
  check raises.
\<close>

lemma validation_runs:
  "validation (scripted healthy) docs_sink () = (Inr True, ()) \<and>
   validation no_client docs_sink () =
     (Inl (EpsillaConnectionException
        ''Epsilla Cloud connection couldn't be initialized. See exception: bad key''), ()) \<and>
   validation unreachable docs_sink () =
     (Inl (EpsillaConnectionException
        ''Epsilla Cloud connection couldn't be initialized. See exception: timed out''), ())"
  by (simp add: eval_defs)

text \<open>
  Claim C7: \<open>validation\<close> should return \<open>True\<close> exactly when the client is built and the
  check of the service succeeds, and raise the connection exception on any failure. The
  code learns of a failure only from an exception: the value that \<^verbatim>\<open>client.validate()\<close>
  returns is discarded (line 72), where the status of every database call is tested
  (lines 89, 99, 113, 135, 153 and 164). For a library whose check returns, without
  raising, the body of a refusal with status 401, \<open>validation\<close> returns \<open>True\<close>.
\<close>

theorem validation_accepts_refused_check:
  "Client rejecting (project_id docs_sink) (api_key docs_sink) () = (Inr (), ()) \<and>
   validate rejecting () () =
     (Inr (JObj [(''statusCode'', JInt 401), (''message'', JStr ''unauthorized'')]), ()) \<and>
   validation rejecting docs_sink () = (Inr True, ())"
  by (simp add: validation_def rejecting_def scripted_def)

subsection \<open>Deleting by file identifier\<close>

text \<open>The errors of \<open>get_db\<close> are exceptions of the library, let through.\<close>

lemma get_db_Inl: "get_db lib self s = (Inl e, s0) \<Longrightarrow> is_raised e"
  by (auto simp add: get_db_def and_then_def propagate_def split: prod.splits sum.splits)

text \<open>
  Claim C8, as amended: when the delete request returns a status,
  \<open>delete_vectors_with_file_id\<close> returns \<open>True\<close> for 200, whatever the response body says,
  and raises the insertion exception for any other status; the one other outcome is an
  exception of the client library, raised while the database handle is built or by the
  delete call itself, which is let through as it is. In every run the outcome is one of
  these three.
\<close>

theorem delete_outcomes:
  "(\<forall>db s0 status_code response s1.
      get_db lib self s = (Inr db, s0) \<longrightarrow>
      db_request lib db (Delete (table_name self) (delete_filter file_id)) s0 =
        (Inr (status_code, response), s1) \<longrightarrow>
      delete_vectors_with_file_id lib self file_id s =
        (if status_code = 200 then Inr True
         else Inl (EpsillaInsertionException ''Epsilla deletion failed. Try later''), s1)) \<and>
   (\<forall>db s0 e s1.
      get_db lib self s = (Inr db, s0) \<longrightarrow>
      db_request lib db (Delete (table_name self) (delete_filter file_id)) s0 = (Inl e, s1) \<longrightarrow>
      delete_vectors_with_file_id lib self file_id s = (Inl (Raised e), s1)) \<and>
   (\<forall>e s0.
      get_db lib self s = (Inl e, s0) \<longrightarrow>
      delete_vectors_with_file_id lib self file_id s = (Inl e, s0) \<and> is_raised e) \<and>
   (case fst (delete_vectors_with_file_id lib self file_id s) of
      Inr b \<Rightarrow> b
    | Inl e \<Rightarrow> e = EpsillaInsertionException ''Epsilla deletion failed. Try later'' \<or> is_raised e)"
proof -
  obtain rg s0 where G: "get_db lib self s = (rg, s0)"
    by fastforce
  show ?thesis
  proof (cases rg)
    case (Inl e)
    with G get_db_Inl [of lib self s e s0] show ?thesis
      by (simp add: delete_vectors_with_file_id_def and_then_def)
  next
    case (Inr db)
    obtain rd s1 where
      D: "db_request lib db (Delete (table_name self) (delete_filter file_id)) s0 = (rd, s1)"
      by fastforce
    from G Inr D show ?thesis
      by (cases rd)
         (auto simp add: delete_vectors_with_file_id_def and_then_def propagate_def raise_def
            returns_def deletion_failed_def)
  qed
qed

text \<open>
  An instance of each case: a service that accepts, one that refuses, a library whose
  requests raise, and one that cannot give the database handle.
\<close>

theorem delete_outcomes_witness:
  "get_db (scripted healthy) docs_sink () = (Inr (), ()) \<and>
   db_request (scripted healthy) () (Delete (table_name docs_sink) (delete_filter ''f1'')) () =
     (Inr (200, JObj [(''statusCode'', JInt 200), (''message'', JStr ''deleted'')]), ()) \<and>
   delete_vectors_with_file_id (scripted healthy) docs_sink ''f1'' () = (Inr True, ()) \<and>
   get_db (scripted refusing) docs_sink () = (Inr (), ()) \<and>
   db_request (scripted refusing) () (Delete (table_name docs_sink) (delete_filter ''f1'')) () =
     (Inr (401, JObj [(''statusCode'', JInt 401), (''message'', JStr ''unauthorized'')]), ()) \<and>
   delete_vectors_with_file_id (scripted refusing) docs_sink ''f1'' () =
     (Inl (EpsillaInsertionException ''Epsilla deletion failed. Try later''), ()) \<and>
   get_db dropping docs_sink () = (Inr (), ()) \<and>
   db_request dropping () (Delete (table_name docs_sink) (delete_filter ''f1'')) () =
     (Inl ''connection reset'', ()) \<and>
   delete_vectors_with_file_id dropping docs_sink ''f1'' () = (Inl (Raised ''connection reset''), ()) \<and>
   get_db no_database docs_sink () = (Inl (Raised ''Invalid db_id''), ()) \<and>
   delete_vectors_with_file_id no_database docs_sink ''f1'' () =
     (Inl (Raised ''Invalid db_id''), ())"
proof -
  have g: "get_db (scripted healthy) docs_sink () = (Inr (), ())"
    by (simp add: eval_defs)
  have d: "db_request (scripted healthy) () (Delete (table_name docs_sink) (delete_filter ''f1'')) () =
     (Inr (200, JObj [(''statusCode'', JInt 200), (''message'', JStr ''deleted'')]), ())"
    by (simp add: scripted_def)
  have g': "get_db (scripted refusing) docs_sink () = (Inr (), ())"
    by (simp add: eval_defs)
  have d': "db_request (scripted refusing) () (Delete (table_name docs_sink) (delete_filter ''f1'')) () =
     (Inr (401, JObj [(''statusCode'', JInt 401), (''message'', JStr ''unauthorized'')]), ())"
    by (simp add: scripted_def refusing_def)
  have g'': "get_db dropping docs_sink () = (Inr (), ())"
    by (simp add: eval_defs dropping_def)
  have d'': "db_request dropping () (Delete (table_name docs_sink) (delete_filter ''f1'')) () =
     (Inl ''connection reset'', ())"
    by (simp add: dropping_def)
  have n: "get_db no_database docs_sink () = (Inl (Raised ''Invalid db_id''), ())"
    by (simp add: eval_defs no_database_def)
  have 1: "delete_vectors_with_file_id (scripted healthy) docs_sink ''f1'' () = (Inr True, ())"
    using delete_outcomes [of "scripted healthy" docs_sink "()" "''f1''"] g d by simp
  have 2: "delete_vectors_with_file_id (scripted refusing) docs_sink ''f1'' () =
     (Inl (EpsillaInsertionException ''Epsilla deletion failed. Try later''), ())"
    using delete_outcomes [of "scripted refusing" docs_sink "()" "''f1''"] g' d' by simp
  have 3: "delete_vectors_with_file_id dropping docs_sink ''f1'' () =
     (Inl (Raised ''connection reset''), ())"
    using delete_outcomes [of dropping docs_sink "()" "''f1''"] g'' d'' by simp
  have 4: "delete_vectors_with_file_id no_database docs_sink ''f1'' () =
     (Inl (Raised ''Invalid db_id''), ())"
    using delete_outcomes [of no_database docs_sink "()" "''f1''"] n by simp
  from 1 2 3 4 g d g' d' g'' d'' n show ?thesis
    by simp
qed

text \<open>
  Claim C8 as stated fails: there is a third outcome. When the library raises while the
  database handle is built, \<open>delete_vectors_with_file_id\<close> neither returns \<open>True\<close> nor
  raises the insertion exception: the exception of the library escapes.
\<close>

theorem delete_lets_library_exception_through:
  "fst (delete_vectors_with_file_id no_database docs_sink ''f1'' ()) = Inl (Raised ''Invalid db_id'') \<and>
   fst (delete_vectors_with_file_id no_database docs_sink ''f1'' ()) \<noteq> Inr True \<and>
   fst (delete_vectors_with_file_id no_database docs_sink ''f1'' ()) \<noteq>
     Inl (EpsillaInsertionException ''Epsilla deletion failed. Try later'')"
  by (simp add: eval_defs no_database_def)



end
